theory Spec2Isabelle
  imports Main "HOL-Library.Sublist"
begin

section \<open>The relay health-check endpoint\<close>

text \<open>
  \<^verbatim>\<open>src/sentry/api/endpoints/relay/health_check.py\<close>: the class
  \<^verbatim>\<open>RelayHealthCheck\<close> declares empty \<^verbatim>\<open>authentication_classes\<close> and
  \<^verbatim>\<open>permission_classes\<close> and one handler, \<^verbatim>\<open>get\<close>, which returns
  \<^verbatim>\<open>Response({"is_healthy": True}, status=200)\<close>.
\<close>

record request =
  http_method :: string
  credentials :: "string option"
  query :: "(string \<times> string) list"

record response =
  data :: "(string \<times> bool) list"
  status_code :: nat

definition authentication_classes :: "(request \<Rightarrow> bool) list" where
  "authentication_classes = []"

definition permission_classes :: "(request \<Rightarrow> bool) list" where
  "permission_classes = []"

text \<open>
  The handler reads neither the request nor any state; the state of the rest of the
  application is threaded through so that "no side effect" can be stated.
\<close>

definition RelayHealthCheck_get :: "'st \<Rightarrow> request \<Rightarrow> response \<times> 'st" where
  "RelayHealthCheck_get st req = (\<lparr>data = [(''is_healthy'', True)], status_code = 200\<rparr>, st)"

text \<open>
  Modelled from the spec: the base class \<^verbatim>\<open>sentry.api.base.Endpoint\<close> is not among
  the source files. A request is refused with 401 when a declared authentication class
  rejects it, with 403 when a declared permission class rejects it, with 405 when the
  class has no handler for the method; otherwise the handler runs.
\<close>

definition RelayHealthCheck_dispatch :: "'st \<Rightarrow> request \<Rightarrow> response \<times> 'st" where
  "RelayHealthCheck_dispatch st req =
     (if \<not> list_all (\<lambda>a. a req) authentication_classes
        then (\<lparr>data = [], status_code = 401\<rparr>, st)
      else if \<not> list_all (\<lambda>p. p req) permission_classes
        then (\<lparr>data = [], status_code = 403\<rparr>, st)
      else if http_method req = ''GET'' then RelayHealthCheck_get st req
      else (\<lparr>data = [], status_code = 405\<rparr>, st))"

section \<open>The scheduled, cascading deletion subsystem\<close>

text \<open>
  Modelled from the spec: the deletion subsystem (\<^verbatim>\<open>sentry.tasks.deletion.scheduled\<close>,
  the \<^verbatim>\<open>ScheduledDeletion\<close> model, the deletion tasks and the repository's failure
  e-mail) is not among the source files; only its tests
  (\<^verbatim>\<open>tests/sentry/deletions/test_repository.py\<close>) are. The definitions of this
  section follow sections 3 and 4 of the specification, and the tests where the
  specification leaves a value open (the subject of the failure message).
\<close>

subsection \<open>Data model\<close>

text \<open>An entity reference is the pair of the target's type and its opaque identifier.\<close>

type_synonym entity_ref = "string \<times> string"

datatype object_status = ACTIVE | PENDING_DELETION

text \<open>
  Besides the fields of the specification an entity carries its columns
  (\<open>attrs\<close>): the dependency table looks dependents up by one of them.
\<close>

record entity =
  ref :: entity_ref
  status :: object_status
  owner_ref :: "string option"
  attrs :: "(string \<times> string) list"

record actor =
  actor_name :: string
  address :: string

record scheduled_deletion =
  target :: entity_ref
  actor_ref :: "actor option"
  due_at :: nat
  in_progress :: bool

datatype relation_kind = HARD | DETACH

text \<open>
  The static dependency table: a parent type has relations, each naming the child
  type, the kind of the relation, the column of the child that holds the parent's
  identifier, and the relations of the child type in turn.
\<close>

datatype relation = Relation string relation_kind string "relation list"

type_synonym schema = "(string \<times> relation list) list"

record action =
  act_target :: entity_ref
  act_kind :: relation_kind

datatype error = ProviderError string | UnexpectedError string

record message =
  msg_to :: "string list"
  subject :: string
  body :: string

text \<open>
  The store: the entity rows, the schedule records, the key-value option records
  (a stale pending-deletion marker is one of them) and the messages sent so far.
\<close>

record store =
  entities :: "entity list"
  schedules :: "scheduled_deletion list"
  options :: "(string \<times> string) list"
  outbox :: "message list"

subsection \<open>Dependency Resolver\<close>

text \<open>
  Modelled from the spec: \<open>plan\<close> of section 4.1. The dependents of a parent through a
  relation are the rows of the child type whose lookup column holds the parent's
  identifier. Each dependent comes after its own dependents, the root comes last.
  The resolver reads the store and changes nothing.
\<close>

fun plan_relation :: "entity list \<Rightarrow> string \<Rightarrow> relation \<Rightarrow> action list" where
  "plan_relation es pid (Relation ct k key subs) =
     concat (map (\<lambda>e. concat (map (plan_relation es (snd (ref e))) subs)
                        @ [\<lparr>act_target = ref e, act_kind = k\<rparr>])
               (filter (\<lambda>e. fst (ref e) = ct \<and> map_of (attrs e) key = Some pid) es))"

definition relations_of :: "schema \<Rightarrow> string \<Rightarrow> relation list" where
  "relations_of sch t = (case map_of sch t of None \<Rightarrow> [] | Some rs \<Rightarrow> rs)"

definition plan :: "schema \<Rightarrow> store \<Rightarrow> entity_ref \<Rightarrow> action list" where
  "plan sch st r =
     concat (map (plan_relation (entities st) (snd r)) (relations_of sch (fst r)))
       @ [\<lparr>act_target = r, act_kind = HARD\<rparr>]"

subsection \<open>Deletion Scheduler\<close>


subsection \<open>Failure Notifier\<close>

text \<open>
  Modelled from the spec: \<open>notify\<close> of section 4.4. The text of a provider error goes
  into the body as it is; an unexpected error contributes the generic message and
  nothing of its own text. The subject is the one the tests read in the outbox.
\<close>

definition failure_subject :: string where
  "failure_subject = ''Unable to Delete Repository Webhooks''"

definition generic_message :: string where
  "generic_message = ''An internal error occurred''"

fun error_text :: "error \<Rightarrow> string" where
  "error_text (ProviderError m) = m"
| "error_text (UnexpectedError m) = generic_message"

definition describe_target :: "entity_ref \<Rightarrow> string" where
  "describe_target r = fst r @ '' '' @ snd r"

definition notification_body :: "string \<Rightarrow> error list \<Rightarrow> string" where
  "notification_body descr errs =
     ''Cleanup failed for '' @ descr @ concat (map (\<lambda>e. '': '' @ error_text e) errs)"

definition notify :: "actor option \<Rightarrow> string \<Rightarrow> error list \<Rightarrow> store \<Rightarrow> store" where
  "notify a descr errs st =
     (case a of
        None \<Rightarrow> st
      | Some u \<Rightarrow> st\<lparr>outbox := outbox st @
          [\<lparr>msg_to = [address u], subject = failure_subject,
            body = notification_body descr errs\<rparr>]\<rparr>)"

subsection \<open>Deletion Executor\<close>

definition delete_entity :: "entity_ref \<Rightarrow> store \<Rightarrow> store" where
  "delete_entity r st = st\<lparr>entities := filter (\<lambda>e. ref e \<noteq> r) (entities st)\<rparr>"

definition lookup_entity :: "store \<Rightarrow> entity_ref \<Rightarrow> entity option" where
  "lookup_entity st r = find (\<lambda>e. ref e = r) (entities st)"

definition remove_schedule :: "entity_ref \<Rightarrow> store \<Rightarrow> store" where
  "remove_schedule r st = st\<lparr>schedules := filter (\<lambda>x. target x \<noteq> r) (schedules st)\<rparr>"

definition pending_deletion_key :: "entity_ref \<Rightarrow> string" where
  "pending_deletion_key r = ''pending-delete:'' @ fst r @ '':'' @ snd r"

definition remove_marker :: "entity_ref \<Rightarrow> store \<Rightarrow> store" where
  "remove_marker r st =
     st\<lparr>options := filter (\<lambda>kv. fst kv \<noteq> pending_deletion_key r) (options st)\<rparr>"

text \<open>
  Step 1, the claim: the record of the target is found and is not in progress; it is
  flipped to in progress. Otherwise the claim fails.
\<close>

definition claim :: "scheduled_deletion \<Rightarrow> store \<Rightarrow> store option" where
  "claim s st =
     (case find (\<lambda>x. target x = target s) (schedules st) of
        None \<Rightarrow> None
      | Some x \<Rightarrow>
          if in_progress x then None
          else Some (st\<lparr>schedules := map (\<lambda>x. if target x = target s
                                               then x\<lparr>in_progress := True\<rparr> else x)
                                         (schedules st)\<rparr>))"

text \<open>
  Steps 4 and 5: the actions in plan order. The external cleanup of each target is
  attempted; an error is caught and kept, and the row is removed all the same. A row
  that is no longer there is removed to no effect.
\<close>

fun execute :: "(entity_ref \<Rightarrow> error + unit) \<Rightarrow> action list \<Rightarrow> store \<Rightarrow> error list
                  \<Rightarrow> store \<times> error list" where
  "execute ext [] st errs = (st, errs)"
| "execute ext (a # as) st errs =
     (case ext (act_target a) of
        Inl e \<Rightarrow> execute ext as (delete_entity (act_target a) st) (errs @ [e])
      | Inr _ \<Rightarrow> execute ext as (delete_entity (act_target a) st) errs)"

text \<open>
  One schedule, steps 1 to 7 of section 4.3. A schedule whose claim fails is skipped.
  A target that is missing or not PENDING_DELETION loses its schedule record and
  nothing else happens. Otherwise the cascade runs, the captured errors go to the
  notifier in one call, the root row is removed, and the schedule record and the
  stale marker of the target are removed.
\<close>

definition run_schedule :: "(entity_ref \<Rightarrow> error + unit) \<Rightarrow> schema \<Rightarrow> scheduled_deletion
                              \<Rightarrow> store \<Rightarrow> store" where
  "run_schedule ext sch s st =
     (case claim s st of
        None \<Rightarrow> st
      | Some st1 \<Rightarrow>
         (case lookup_entity st1 (target s) of
            None \<Rightarrow> remove_schedule (target s) st1
          | Some e \<Rightarrow>
             if status e \<noteq> PENDING_DELETION then remove_schedule (target s) st1
             else
               let acts = plan sch st1 (target s);
                   (st2, errs) = execute ext acts st1 [];
                   st3 = (if errs = [] then st2
                          else notify (actor_ref s) (describe_target (target s)) errs st2);
                   st4 = delete_entity (target s) st3
               in remove_marker (target s) (remove_schedule (target s) st4)))"



text \<open>
  The errors one cascade captures, in plan order: what \<open>execute\<close> returns beside the
  store. Used to state what the notifier receives.
\<close>

definition captured :: "(entity_ref \<Rightarrow> error + unit) \<Rightarrow> action list \<Rightarrow> error list" where
  "captured ext acts =
     concat (map (\<lambda>a. case ext (act_target a) of Inl e \<Rightarrow> [e] | Inr _ \<Rightarrow> []) acts)"

text \<open>The message the notifier composes, as one value.\<close>

definition failure_message :: "actor \<Rightarrow> entity_ref \<Rightarrow> error list \<Rightarrow> message" where
  "failure_message u r errs =
     \<lparr>msg_to = [address u], subject = failure_subject,
      body = notification_body (describe_target r) errs\<rparr>"




subsection \<open>The rows of the repository tests\<close>

text \<open>
  The values \<^verbatim>\<open>tests/sentry/deletions/test_repository.py\<close> creates: a repository
  pending deletion and a second one, a commit of each with the same key, a project, a
  path configuration linking the repository to the project, the code owners hanging off
  the path configuration, the requesting user, and the dummy provider, which succeeds
  or raises the given error on the repository.
\<close>

definition example_user :: actor where
  "example_user = \<lparr>actor_name = ''admin'', address = ''admin@localhost''\<rparr>"

definition repository_schema :: schema where
  "repository_schema =
     [(''Repository'',
        [Relation ''Commit'' HARD ''repository_id'' [],
         Relation ''RepositoryProjectPathConfig'' DETACH ''repository_id''
           [Relation ''ProjectCodeOwners'' HARD ''repository_project_path_config_id'' []]])]"

definition example_repo :: entity where
  "example_repo = \<lparr>ref = (''Repository'', ''1''), status = PENDING_DELETION, owner_ref = None,
     attrs = [(''organization_id'', ''1''), (''provider'', ''dummy''),
              (''name'', ''example/example'')]\<rparr>"

definition example_repo2 :: entity where
  "example_repo2 = \<lparr>ref = (''Repository'', ''2''), status = ACTIVE, owner_ref = None,
     attrs = [(''organization_id'', ''1''), (''provider'', ''dummy''),
              (''name'', ''example/example2'')]\<rparr>"

definition example_commit :: entity where
  "example_commit = \<lparr>ref = (''Commit'', ''1''), status = ACTIVE, owner_ref = None,
     attrs = [(''repository_id'', ''1''), (''organization_id'', ''1''),
              (''key'', ''1234abcd'')]\<rparr>"

definition example_commit2 :: entity where
  "example_commit2 = \<lparr>ref = (''Commit'', ''2''), status = ACTIVE, owner_ref = None,
     attrs = [(''repository_id'', ''2''), (''organization_id'', ''1''),
              (''key'', ''1234abcd'')]\<rparr>"

definition example_project :: entity where
  "example_project = \<lparr>ref = (''Project'', ''1''), status = ACTIVE, owner_ref = None,
     attrs = [(''organization_id'', ''1'')]\<rparr>"

definition example_path_config :: entity where
  "example_path_config = \<lparr>ref = (''RepositoryProjectPathConfig'', ''1''), status = ACTIVE,
     owner_ref = None,
     attrs = [(''project_id'', ''1''), (''repository_id'', ''1''),
              (''source_root'', ''src/packages/store''), (''default_branch'', ''main'')]\<rparr>"

definition example_code_owner :: entity where
  "example_code_owner = \<lparr>ref = (''ProjectCodeOwners'', ''1''), status = ACTIVE,
     owner_ref = None,
     attrs = [(''project_id'', ''1''), (''repository_project_path_config_id'', ''1''),
              (''raw'', ''* @org/devs'')]\<rparr>"

definition example_schedule :: "actor option \<Rightarrow> scheduled_deletion" where
  "example_schedule a = \<lparr>target = (''Repository'', ''1''), actor_ref = a, due_at = 0,
     in_progress = False\<rparr>"

definition example_store :: "entity list \<Rightarrow> scheduled_deletion list \<Rightarrow> store" where
  "example_store es ss = \<lparr>entities = es, schedules = ss, options = [], outbox = []\<rparr>"

definition provider_ok :: "entity_ref \<Rightarrow> error + unit" where
  "provider_ok r = Inr ()"

definition provider_raises :: "error \<Rightarrow> entity_ref \<Rightarrow> error + unit" where
  "provider_raises err r = (if r = (''Repository'', ''1'') then Inl err else Inr ())"

definition example_visible_repo :: entity where
  "example_visible_repo = example_repo\<lparr>status := ACTIVE\<rparr>"

definition root_action :: action where
  "root_action = \<lparr>act_target = (''Repository'', ''1''), act_kind = HARD\<rparr>"

text \<open>The stores the tests build before they run the scheduled deletions.\<close>

definition visible_store :: store where
  "visible_store = example_store [example_visible_repo] [example_schedule None]"

definition failing_store :: store where
  "failing_store = example_store [example_repo] [example_schedule (Some example_user)]"

definition simple_store :: store where
  "simple_store =
     example_store [example_repo, example_repo2, example_commit, example_commit2] []"

definition codeowners_store :: store where
  "codeowners_store =
     example_store [example_project, example_repo, example_path_config, example_code_owner] []"

definition botched_store :: store where
  "botched_store =
     \<lparr>entities = [example_repo], schedules = [],
      options = [(pending_deletion_key (''Repository'', ''1''), [])], outbox = []\<rparr>"

section \<open>Theorems\<close>

subsection \<open>The executor, step by step\<close>

lemma execute_fst:
  "fst (execute ext acts st errs) =
     st\<lparr>entities := filter (\<lambda>e. ref e \<notin> act_target ` set acts) (entities st)\<rparr>"
proof (induction acts arbitrary: st errs)
  case Nil
  show ?case by simp
next
  case (Cons a acts)
  show ?case
    by (cases "ext (act_target a)")
       (simp_all add: Cons.IH delete_entity_def conj_commute cong: filter_cong)
qed

lemma execute_snd: "snd (execute ext acts st errs) = errs @ captured ext acts"
proof (induction acts arbitrary: st errs)
  case Nil
  show ?case by (simp add: captured_def)
next
  case (Cons a acts)
  show ?case
    by (cases "ext (act_target a)") (simp_all add: Cons.IH captured_def)
qed

lemma execute_eq:
  "execute ext acts st [] =
     (st\<lparr>entities := filter (\<lambda>e. ref e \<notin> act_target ` set acts) (entities st)\<rparr>,
      captured ext acts)"
  using execute_fst [of ext acts st "[]"] execute_snd [of ext acts st "[]"]
  by (simp add: prod_eq_iff)

lemma filter_flip:
  "filter (\<lambda>x. target x \<noteq> r)
      (map (\<lambda>x. if target x = r then x\<lparr>in_progress := True\<rparr> else x) xs)
     = filter (\<lambda>x. target x \<noteq> r) xs"
  by (induction xs) auto

lemma claim_Some:
  "claim s st = Some st1 \<Longrightarrow>
     entities st1 = entities st \<and> options st1 = options st \<and> outbox st1 = outbox st \<and>
     filter (\<lambda>x. target x \<noteq> target s) (schedules st1)
       = filter (\<lambda>x. target x \<noteq> target s) (schedules st)"
  by (auto simp: claim_def filter_flip split: option.splits if_splits)

lemma plan_claim: "claim s st = Some st1 \<Longrightarrow> plan sch st1 r = plan sch st r"
  by (simp add: plan_def claim_Some)

lemma lookup_claim: "claim s st = Some st1 \<Longrightarrow> lookup_entity st1 r = lookup_entity st r"
  by (simp add: lookup_entity_def claim_Some)

lemma run_schedule_abort:
  assumes "claim s st = Some st1"
    and "\<forall>e. lookup_entity st (target s) = Some e \<longrightarrow> status e \<noteq> PENDING_DELETION"
  shows "run_schedule ext sch s st =
           st\<lparr>schedules := filter (\<lambda>x. target x \<noteq> target s) (schedules st)\<rparr>"
proof -
  have eq: "remove_schedule (target s) st1 =
              st\<lparr>schedules := filter (\<lambda>x. target x \<noteq> target s) (schedules st)\<rparr>"
    using claim_Some [OF assms(1)] by (simp add: remove_schedule_def)
  show ?thesis
    using assms lookup_claim [OF assms(1), of "target s"]
    by (simp add: run_schedule_def eq split: option.splits)
qed

lemma run_schedule_cascade:
  assumes "claim s st = Some st1"
    and "lookup_entity st (target s) = Some e" and "status e = PENDING_DELETION"
  shows "run_schedule ext sch s st =
           \<lparr>entities = filter (\<lambda>e. ref e \<notin> act_target ` set (plan sch st (target s)))
                         (entities st),
            schedules = filter (\<lambda>x. target x \<noteq> target s) (schedules st),
            options = filter (\<lambda>kv. fst kv \<noteq> pending_deletion_key (target s)) (options st),
            outbox = outbox st @
              (if captured ext (plan sch st (target s)) = [] then []
               else case actor_ref s of None \<Rightarrow> []
                    | Some u \<Rightarrow> [failure_message u (target s)
                                    (captured ext (plan sch st (target s)))])\<rparr>"
proof -
  note c = claim_Some [OF assms(1)]
  have root: "target s \<in> act_target ` set (plan sch st (target s))"
    by (simp add: plan_def)
  have flt: "filter (\<lambda>e. ref e \<noteq> target s)
               (filter (\<lambda>e. ref e \<notin> act_target ` set (plan sch st (target s))) (entities st))
             = filter (\<lambda>e. ref e \<notin> act_target ` set (plan sch st (target s))) (entities st)"
    using root by (auto intro!: filter_cong simp: filter_id_conv)
  show ?thesis
    using assms(2,3) lookup_claim [OF assms(1), of "target s"] c flt
    by (cases "actor_ref s")
       (simp_all add: run_schedule_def assms(1) plan_claim [OF assms(1)] execute_eq
          notify_def delete_entity_def remove_schedule_def remove_marker_def
          failure_message_def Let_def)
qed
























lemmas example_defs = example_user_def repository_schema_def example_repo_def example_repo2_def
  example_commit_def example_commit2_def example_project_def example_path_config_def
  example_code_owner_def example_schedule_def example_store_def provider_ok_def
  provider_raises_def example_visible_repo_def root_action_def visible_store_def
  failing_store_def simple_store_def codeowners_store_def botched_store_def






subsection \<open>The claims\<close>














text \<open>
  C7. Once the executor has claimed a schedule, the run of that schedule ends with the
  records of its target removed from the schedules, whichever way the run goes: the
  target missing or visible again, a clean cascade, or a cascade with errors. Nothing
  is inserted: the schedules after the run are among those before it.
\<close>

theorem schedule_consumed:
  assumes "claim s st = Some st1"
  shows "schedules (run_schedule ext sch s st)
           = filter (\<lambda>x. target x \<noteq> target s) (schedules st) \<and>
         s \<notin> set (schedules (run_schedule ext sch s st)) \<and>
         set (schedules (run_schedule ext sch s st)) \<subseteq> set (schedules st)"
proof -
  have eq: "schedules (run_schedule ext sch s st)
              = filter (\<lambda>x. target x \<noteq> target s) (schedules st)"
  proof (cases "\<exists>e. lookup_entity st (target s) = Some e \<and> status e = PENDING_DELETION")
    case True
    then obtain e where "lookup_entity st (target s) = Some e" "status e = PENDING_DELETION"
      by blast
    from run_schedule_cascade [OF assms this, of ext sch] show ?thesis by simp
  next
    case False
    then have "\<forall>e. lookup_entity st (target s) = Some e \<longrightarrow> status e \<noteq> PENDING_DELETION"
      by blast
    from run_schedule_abort [OF assms this, of ext sch] show ?thesis by simp
  qed
  then show ?thesis by auto
qed

theorem schedule_consumed_witness:
  "claim (example_schedule (Some example_user)) failing_store
     = Some (example_store [example_repo]
               [(example_schedule (Some example_user))\<lparr>in_progress := True\<rparr>]) \<and>
   schedules (run_schedule (provider_raises (UnexpectedError ''secrets'')) repository_schema
               (example_schedule (Some example_user)) failing_store) = [] \<and>
   schedules (run_schedule provider_ok repository_schema
               (example_schedule (Some example_user)) failing_store) = []"
proof -
  have h: "claim (example_schedule (Some example_user)) failing_store
     = Some (example_store [example_repo]
               [(example_schedule (Some example_user))\<lparr>in_progress := True\<rparr>])"
    by (simp add: claim_def example_defs)
  have e: "filter (\<lambda>x. target x \<noteq> target (example_schedule (Some example_user)))
             (schedules failing_store) = []"
    by (simp add: example_defs)
  from schedule_consumed [OF h, of "provider_raises (UnexpectedError ''secrets'')"
         repository_schema]
    schedule_consumed [OF h, of provider_ok repository_schema] h
  show ?thesis
    unfolding e by blast
qed



text \<open>
  C9. Every GET request to the health-check endpoint is answered with the fixed payload
  \<open>{"is_healthy": true}\<close> and status 200: the endpoint declares no authentication and
  no permission class, so the answer is the same with or without credentials; the
  application state is returned unchanged, and the answer is the same in every state,
  whatever the type of that state is.
\<close>

theorem health_check_fixed_response:
  "authentication_classes = [] \<and> permission_classes = [] \<and>
   RelayHealthCheck_get st req = (\<lparr>data = [(''is_healthy'', True)], status_code = 200\<rparr>, st) \<and>
   RelayHealthCheck_dispatch st (req\<lparr>http_method := ''GET'', credentials := c\<rparr>)
     = (\<lparr>data = [(''is_healthy'', True)], status_code = 200\<rparr>, st) \<and>
   fst (RelayHealthCheck_dispatch st (req\<lparr>http_method := ''GET''\<rparr>))
     = fst (RelayHealthCheck_dispatch st' (req'\<lparr>http_method := ''GET''\<rparr>))"
  by (simp add: authentication_classes_def permission_classes_def
        RelayHealthCheck_get_def RelayHealthCheck_dispatch_def)

end
